theory Spec2Isabelle
  imports Main
begin

section \<open>The tutorial tree\<close>

text \<open>
  A \<^verbatim>\<open>model.FilePath\<close> is a Go string, and a Go \<^verbatim>\<open>error\<close> is represented by its message.
  The three node structs \<^verbatim>\<open>Lesson\<close>, \<^verbatim>\<open>Course\<close> and \<^verbatim>\<open>TopCourse\<close> all implement the
  interface \<^verbatim>\<open>Tutorial\<close>; a value of the interface is one constructor of the datatype.
\<close>

type_synonym FilePath = string
type_synonym error = string

datatype tutorial =
    Lesson FilePath string
  | Course FilePath "tutorial list"
  | TopCourse FilePath "tutorial list"

text \<open>
  The methods of the interface. \<^verbatim>\<open>FilePath.Base\<close> lives in package \<^verbatim>\<open>model\<close>, which is not
  part of the sources at hand, so \<open>Name\<close> takes it as the parameter \<open>base\<close>.
\<close>

fun Name :: "(FilePath \<Rightarrow> string) \<Rightarrow> tutorial \<Rightarrow> string" where
  "Name base (Lesson p c) = base p"
| "Name base (Course p cs) = base p"
| "Name base (TopCourse p cs) = []"

fun Path :: "tutorial \<Rightarrow> FilePath" where
  "Path (Lesson p c) = p"
| "Path (Course p cs) = p"
| "Path (TopCourse p cs) = p"

fun Content :: "tutorial \<Rightarrow> string" where
  "Content (Lesson p c) = c"
| "Content (Course p cs) = []"
| "Content (TopCourse p cs) = []"

fun Children :: "tutorial \<Rightarrow> tutorial list" where
  "Children (Lesson p c) = []"
| "Children (Course p cs) = cs"
| "Children (TopCourse p cs) = cs"

section \<open>The file system and the path helpers of the Go library\<close>

text \<open>
  \<^verbatim>\<open>os.Stat\<close> yields a \<^verbatim>\<open>FileInfo\<close> or an error; on an error the \<^verbatim>\<open>FileInfo\<close> is \<^verbatim>\<open>nil\<close>.
  Of a \<^verbatim>\<open>FileInfo\<close> the loader reads \<^verbatim>\<open>Name()\<close>, \<^verbatim>\<open>IsDir()\<close> and \<^verbatim>\<open>Mode().IsRegular()\<close>.
\<close>

record FileInfo =
  InfoName :: string
  IsDir :: bool
  IsRegular :: bool

text \<open>
  The file system is a parameter of the loader: \<^verbatim>\<open>os.Stat\<close>, and the methods \<^verbatim>\<open>ReadDir\<close>,
  \<^verbatim>\<open>Read\<close> and \<^verbatim>\<open>Join\<close> of \<^verbatim>\<open>model.FilePath\<close> (package \<^verbatim>\<open>model\<close> is not among the
  sources; its interface is \<^verbatim>\<open>Read() -> (bytes, error)\<close>,
  \<^verbatim>\<open>ReadDir() -> (ordered list of entries, error)\<close>, \<^verbatim>\<open>Join(child) -> path\<close>).
\<close>

record fsys =
  Stat :: "FilePath \<Rightarrow> error + FileInfo"
  ReadDir :: "FilePath \<Rightarrow> error + string list"
  Read :: "FilePath \<Rightarrow> error + string"
  Join :: "FilePath \<Rightarrow> string \<Rightarrow> FilePath"

text \<open>
  \<^verbatim>\<open>filepath.Ext\<close> of the Go library (Unix separator): walking back from the end of the
  path, the suffix that starts at the first dot met before any separator; empty when a
  separator or the start of the path comes first.
\<close>

fun ext_scan :: "string \<Rightarrow> string \<Rightarrow> string" where
  "ext_scan [] acc = []"
| "ext_scan (c # cs) acc =
     (if c = CHR ''/'' then []
      else if c = CHR ''.'' then c # acc
      else ext_scan cs (c # acc))"

definition filepath_Ext :: "string \<Rightarrow> string" where
  "filepath_Ext path = ext_scan (rev path) []"

text \<open>
  \<^verbatim>\<open>filepath.Base\<close> of the Go library (Unix: no volume name): the empty path gives a dot;
  trailing separators are stripped; the last element is what follows the last separator;
  a path of separators only gives one separator.
\<close>

definition filepath_Base :: "string \<Rightarrow> string" where
  "filepath_Base path =
     (if path = [] then ''.''
      else
        let stripped = rev (dropWhile (\<lambda>c. c = CHR ''/'') (rev path));
            element = rev (takeWhile (\<lambda>c. c \<noteq> CHR ''/'') (rev stripped))
        in if element = [] then ''/'' else element)"

section \<open>Outcomes of a call\<close>

text \<open>
  A call either panics (a run-time error that unwinds the program) or returns.
  A Go function with results \<^verbatim>\<open>(*T, error)\<close> returns through one of three kinds of
  \<^verbatim>\<open>return\<close> statement in this program: \<^verbatim>\<open>nil, err\<close> (\<open>Failed\<close>), \<^verbatim>\<open>nil, nil\<close>
  (\<open>Absent\<close>) and \<^verbatim>\<open>ptr, nil\<close> (\<open>Present\<close>).
\<close>

datatype 'a outcome = Panics | Returns 'a

datatype 'a ret = Failed error | Absent | Present 'a

section \<open>The desirability filters\<close>

definition badLeadingChar :: string where
  "badLeadingChar = ''~.#''"

text \<open>
  \<^verbatim>\<open>isDesirableFile\<close>. When \<^verbatim>\<open>os.Stat\<close> fails, \<^verbatim>\<open>s\<close> is the nil \<^verbatim>\<open>FileInfo\<close> and the argument
  \<^verbatim>\<open>"Stat error on "+s.Name()\<close> of the log call is evaluated first: a nil dereference, so
  the call panics. \<^verbatim>\<open>base[0]\<close> panics on an empty string. \<^verbatim>\<open>strings.Index(badLeadingChar,
  string(base[0])) > -1\<close> holds exactly when the byte \<^verbatim>\<open>base[0]\<close> is one of the three
  (ASCII) bytes of \<^verbatim>\<open>badLeadingChar\<close>: a byte above 127 converts to a two-byte string,
  which is not found. The \<^verbatim>\<open>glog.Info\<close> records steer nothing and are left out.
\<close>

definition isDesirableFile :: "fsys \<Rightarrow> FilePath \<Rightarrow> bool outcome" where
  "isDesirableFile fs n =
     (case Stat fs n of
        Inl err \<Rightarrow> Panics
      | Inr s \<Rightarrow>
          if IsDir s then Returns False
          else if \<not> IsRegular s then Returns False
          else if filepath_Ext (InfoName s) \<noteq> ''.md'' then Returns False
          else (case filepath_Base (InfoName s) of
                  [] \<Rightarrow> Panics
                | b # rest \<Rightarrow>
                    if b \<in> set badLeadingChar then Returns False else Returns True))"

text \<open>\<^verbatim>\<open>strings.HasPrefix\<close> of the Go library.\<close>

definition strings_HasPrefix :: "string \<Rightarrow> string \<Rightarrow> bool" where
  "strings_HasPrefix s pre = (length s \<ge> length pre \<and> take (length pre) s = pre)"

text \<open>\<^verbatim>\<open>isDesirableDir\<close>, with the same nil dereference when \<^verbatim>\<open>os.Stat\<close> fails.\<close>

definition isDesirableDir :: "fsys \<Rightarrow> FilePath \<Rightarrow> bool outcome" where
  "isDesirableDir fs n =
     (case Stat fs n of
        Inl err \<Rightarrow> Panics
      | Inr s \<Rightarrow>
          if \<not> IsDir s then Returns False
          else if InfoName s = ''.'' \<or> InfoName s = ''./'' \<or> InfoName s = ''..'' then Returns True
          else if strings_HasPrefix (filepath_Base (InfoName s)) ''.'' then Returns False
          else Returns True)"

section \<open>The scanner\<close>

text \<open>
  \<^verbatim>\<open>scanFile\<close> has two \<^verbatim>\<open>return\<close> statements, \<^verbatim>\<open>nil, err\<close> and \<^verbatim>\<open>&Lesson{n, contents}, nil\<close>.
\<close>

definition scanFile :: "fsys \<Rightarrow> FilePath \<Rightarrow> error + tutorial" where
  "scanFile fs n =
     (case Read fs n of
        Inl err \<Rightarrow> Inl err
      | Inr contents \<Rightarrow> Inr (Lesson n contents))"

text \<open>
  \<^verbatim>\<open>scanDir\<close> recurses over whatever the file system lists, so the recursion is bounded by
  fuel: \<open>None\<close> means the fuel ran out, one unit is spent per directory level.
  \<open>scanDir_loop\<close> is the \<^verbatim>\<open>for _, f := range files\<close> loop with the slice \<^verbatim>\<open>items\<close> as
  accumulator; it ends with \<open>Inl err\<close> at an early \<^verbatim>\<open>return nil, err\<close> and with
  \<open>Inr items\<close> when the range is exhausted.
\<close>

fun scanDir :: "fsys \<Rightarrow> nat \<Rightarrow> FilePath \<Rightarrow> tutorial ret outcome option"
  and scanDir_loop ::
    "fsys \<Rightarrow> nat \<Rightarrow> FilePath \<Rightarrow> string list \<Rightarrow> tutorial list \<Rightarrow> (error + tutorial list) outcome option"
where
  "scanDir fs 0 d = None"
| "scanDir fs (Suc k) d =
     (case ReadDir fs d of
        Inl err \<Rightarrow> Some (Returns (Failed err))
      | Inr files \<Rightarrow>
          (case scanDir_loop fs k d files [] of
             None \<Rightarrow> None
           | Some Panics \<Rightarrow> Some Panics
           | Some (Returns (Inl err)) \<Rightarrow> Some (Returns (Failed err))
           | Some (Returns (Inr items)) \<Rightarrow>
               if length items > 0 then Some (Returns (Present (Course d items)))
               else Some (Returns Absent)))"
| "scanDir_loop fs k d [] items = Some (Returns (Inr items))"
| "scanDir_loop fs k d (f # files) items =
     (let p = Join fs d f in
      case isDesirableFile fs p of
        Panics \<Rightarrow> Some Panics
      | Returns True \<Rightarrow>
          (case scanFile fs p of
             Inl err \<Rightarrow> Some (Returns (Inl err))
           | Inr l \<Rightarrow> scanDir_loop fs k d files (items @ [l]))
      | Returns False \<Rightarrow>
          (case isDesirableDir fs p of
             Panics \<Rightarrow> Some Panics
           | Returns True \<Rightarrow>
               (case scanDir fs k p of
                  None \<Rightarrow> None
                | Some Panics \<Rightarrow> Some Panics
                | Some (Returns (Failed err)) \<Rightarrow> Some (Returns (Inl err))
                | Some (Returns Absent) \<Rightarrow> scanDir_loop fs k d files items
                | Some (Returns (Present c)) \<Rightarrow> scanDir_loop fs k d files (items @ [c]))
           | Returns False \<Rightarrow> scanDir_loop fs k d files items))"

text \<open>
  \<^verbatim>\<open>LoadOne\<close>. The result type is the interface \<^verbatim>\<open>Tutorial\<close>; \<^verbatim>\<open>return scanFile(root)\<close>
  hands on either the error (with a nil \<^verbatim>\<open>*Lesson\<close>, no tree) or the lesson.
  \<^verbatim>\<open>c.children\<close> is the field that \<open>Children\<close> reads off a \<open>Course\<close>.
\<close>

definition LoadOne :: "fsys \<Rightarrow> nat \<Rightarrow> FilePath \<Rightarrow> tutorial ret outcome option" where
  "LoadOne fs k root =
     (case isDesirableFile fs root of
        Panics \<Rightarrow> Some Panics
      | Returns True \<Rightarrow>
          (case scanFile fs root of
             Inl err \<Rightarrow> Some (Returns (Failed err))
           | Inr l \<Rightarrow> Some (Returns (Present l)))
      | Returns False \<Rightarrow>
          (case isDesirableDir fs root of
             Panics \<Rightarrow> Some Panics
           | Returns True \<Rightarrow>
               (case scanDir fs k root of
                  None \<Rightarrow> None
                | Some Panics \<Rightarrow> Some Panics
                | Some (Returns (Failed err)) \<Rightarrow> Some (Returns (Failed err))
                | Some (Returns (Present c)) \<Rightarrow>
                    Some (Returns (Present (TopCourse root (Children c))))
                | Some (Returns Absent) \<Rightarrow>
                    Some (Returns (Failed (''Cannot process '' @ root))))
           | Returns False \<Rightarrow> Some (Returns (Failed (''Cannot process '' @ root)))))"

text \<open>The \<^verbatim>\<open>for _, f := range fileNames\<close> loop of \<^verbatim>\<open>LoadMany\<close>.\<close>

fun LoadMany_loop ::
  "fsys \<Rightarrow> nat \<Rightarrow> FilePath list \<Rightarrow> tutorial list \<Rightarrow> (error + tutorial list) outcome option"
where
  "LoadMany_loop fs k [] items = Some (Returns (Inr items))"
| "LoadMany_loop fs k (f # fileNames) items =
     (case isDesirableFile fs f of
        Panics \<Rightarrow> Some Panics
      | Returns True \<Rightarrow>
          (case scanFile fs f of
             Inl err \<Rightarrow> Some (Returns (Inl err))
           | Inr l \<Rightarrow> LoadMany_loop fs k fileNames (items @ [l]))
      | Returns False \<Rightarrow>
          (case isDesirableDir fs f of
             Panics \<Rightarrow> Some Panics
           | Returns True \<Rightarrow>
               (case scanDir fs k f of
                  None \<Rightarrow> None
                | Some Panics \<Rightarrow> Some Panics
                | Some (Returns (Failed err)) \<Rightarrow> Some (Returns (Inl err))
                | Some (Returns Absent) \<Rightarrow> LoadMany_loop fs k fileNames items
                | Some (Returns (Present c)) \<Rightarrow> LoadMany_loop fs k fileNames (items @ [c]))
           | Returns False \<Rightarrow> LoadMany_loop fs k fileNames items))"

definition LoadMany :: "fsys \<Rightarrow> nat \<Rightarrow> FilePath list \<Rightarrow> tutorial ret outcome option" where
  "LoadMany fs k fileNames =
     (if length fileNames = 0 then Some (Returns (Failed ''no files?''))
      else if length fileNames = 1 then LoadOne fs k (fileNames ! 0)
      else
        (case LoadMany_loop fs k fileNames [] of
           None \<Rightarrow> None
         | Some Panics \<Rightarrow> Some Panics
         | Some (Returns (Inl err)) \<Rightarrow> Some (Returns (Failed err))
         | Some (Returns (Inr items)) \<Rightarrow>
             if length items > 0 then Some (Returns (Present (TopCourse [] items)))
             else Some (Returns (Failed ''Nothing useful found''))))"

section \<open>A small file system to run the loader on\<close>

text \<open>
  A directory \<^verbatim>\<open>tut\<close> with a lesson, a version-control directory, an empty directory, a
  text file and a subdirectory holding a backup file and a lesson. Every other path does
  not exist: \<^verbatim>\<open>os.Stat\<close>, \<^verbatim>\<open>Read\<close> and \<^verbatim>\<open>ReadDir\<close> fail on it.
\<close>

definition demo_dir :: "string \<Rightarrow> error + FileInfo" where
  "demo_dir name = Inr \<lparr>InfoName = name, IsDir = True, IsRegular = False\<rparr>"

definition demo_file :: "string \<Rightarrow> error + FileInfo" where
  "demo_file name = Inr \<lparr>InfoName = name, IsDir = False, IsRegular = True\<rparr>"

definition demo_Stat :: "FilePath \<Rightarrow> error + FileInfo" where
  "demo_Stat p =
     (if p = ''tut'' then demo_dir ''tut''
      else if p = ''tut/01_intro.md'' then demo_file ''01_intro.md''
      else if p = ''tut/.git'' then demo_dir ''.git''
      else if p = ''tut/.git/config.md'' then demo_file ''config.md''
      else if p = ''tut/empty'' then demo_dir ''empty''
      else if p = ''tut/notes.txt'' then demo_file ''notes.txt''
      else if p = ''tut/sub'' then demo_dir ''sub''
      else if p = ''tut/sub/~draft.md'' then demo_file ''~draft.md''
      else if p = ''tut/sub/a.md'' then demo_file ''a.md''
      else Inl (''stat '' @ p @ '': no such file or directory''))"

definition demo_ReadDir :: "FilePath \<Rightarrow> error + string list" where
  "demo_ReadDir p =
     (if p = ''tut'' then Inr [''.git'', ''01_intro.md'', ''empty'', ''notes.txt'', ''sub'']
      else if p = ''tut/.git'' then Inr [''config.md'']
      else if p = ''tut/empty'' then Inr []
      else if p = ''tut/sub'' then Inr [''a.md'', ''~draft.md'']
      else Inl (''open '' @ p @ '': no such file or directory''))"

definition demo_Read :: "FilePath \<Rightarrow> error + string" where
  "demo_Read p =
     (if p = ''tut/01_intro.md'' then Inr ''# Intro''
      else if p = ''tut/.git/config.md'' then Inr ''x''
      else if p = ''tut/notes.txt'' then Inr ''todo''
      else if p = ''tut/sub/~draft.md'' then Inr ''draft''
      else if p = ''tut/sub/a.md'' then Inr ''A''
      else Inl (''open '' @ p @ '': no such file or directory''))"

definition demo_fs :: fsys where
  "demo_fs =
     \<lparr>Stat = demo_Stat, ReadDir = demo_ReadDir, Read = demo_Read,
      Join = (\<lambda>d f. d @ ''/'' @ f)\<rparr>"

section \<open>The visitors\<close>

subsection \<open>TutorialPrinter\<close>

text \<open>
  The printer's \<^verbatim>\<open>io.Writer\<close> is represented by the text written to it so far; what
  \<^verbatim>\<open>fmt.Fprintf\<close> returns is dropped by the source.
\<close>

record TutorialPrinter =
  indent :: int
  w :: string

definition NewTutorialPrinter :: "string \<Rightarrow> TutorialPrinter" where
  "NewTutorialPrinter written = \<lparr>indent = 0, w = written\<rparr>"

text \<open>
  \<^verbatim>\<open>spaces\<close>: \<^verbatim>\<open>fmt.Sprintf("%Ns", " ")\<close> pads the one blank on the left to width \<^verbatim>\<open>N\<close>.
\<close>

definition spaces :: "int \<Rightarrow> string" where
  "spaces n = (if n < 1 then [] else replicate (nat n - 1) CHR '' '' @ '' '')"

text \<open>
  \<^verbatim>\<open>x.Accept(v)\<close> dispatches on the node: the three equations are the bodies of
  \<^verbatim>\<open>VisitLesson\<close>, \<^verbatim>\<open>VisitCourse\<close> and \<^verbatim>\<open>VisitTopCourse\<close>. \<^verbatim>\<open>util.SampleString\<close> is not
  among the sources and is the parameter \<open>sample\<close>; \<open>base\<close> is \<^verbatim>\<open>FilePath.Base\<close>.
\<close>

fun TutorialPrinter_Accept ::
  "(FilePath \<Rightarrow> string) \<Rightarrow> (string \<Rightarrow> int \<Rightarrow> string) \<Rightarrow> tutorial \<Rightarrow> TutorialPrinter \<Rightarrow> TutorialPrinter"
where
  "TutorialPrinter_Accept base sample (Lesson p c) v =
     v\<lparr>w := w v @ spaces (indent v) @ Name base (Lesson p c) @ '' --- '' @
               sample (Content (Lesson p c)) 60 @ ''...'' @ [CHR 0x0A]\<rparr>"
| "TutorialPrinter_Accept base sample (Course p cs) v =
     (let v1 = v\<lparr>w := w v @ spaces (indent v) @ Name base (Course p cs) @ [CHR 0x0A]\<rparr>;
          v2 = v1\<lparr>indent := indent v1 + 3\<rparr>;
          v3 = fold (TutorialPrinter_Accept base sample) cs v2
      in v3\<lparr>indent := indent v3 - 3\<rparr>)"
| "TutorialPrinter_Accept base sample (TopCourse p cs) v =
     fold (TutorialPrinter_Accept base sample) cs v"

subsection \<open>TutorialParser\<close>

text \<open>
  Modelled from the spec: \<^verbatim>\<open>model.NewParsedFile\<close> is not among the sources; it "wraps
  (path, blocks) as a parsed-file result". Labels and blocks are opaque (type variables).
\<close>

definition NewParsedFile :: "FilePath \<Rightarrow> 'b list \<Rightarrow> FilePath \<times> 'b list" where
  "NewParsedFile path blocks = (path, blocks)"

record ('l, 'b) TutorialParser =
  label :: 'l
  parsedFiles :: "(FilePath \<times> 'b list) list"

definition NewTutorialParser :: "'l \<Rightarrow> ('l, 'b) TutorialParser" where
  "NewTutorialParser l = \<lparr>label = l, parsedFiles = []\<rparr>"

definition Files :: "('l, 'b) TutorialParser \<Rightarrow> (FilePath \<times> 'b list) list" where
  "Files v = parsedFiles v"

text \<open>
  \<^verbatim>\<open>lexer.Parse\<close> is not among the sources and is the parameter \<open>parse\<close>: content to a Go
  map from labels to block slices. \<^verbatim>\<open>blocks, ok := m[v.label]\<close> is the lookup in that map.
\<close>

fun TutorialParser_Accept ::
  "(string \<Rightarrow> 'l \<rightharpoonup> 'b list) \<Rightarrow> tutorial \<Rightarrow> ('l, 'b) TutorialParser \<Rightarrow> ('l, 'b) TutorialParser"
where
  "TutorialParser_Accept parse (Lesson p c) v =
     (let m = parse (Content (Lesson p c)) in
      case m (label v) of
        Some blocks \<Rightarrow>
          v\<lparr>parsedFiles := parsedFiles v @ [NewParsedFile (Path (Lesson p c)) blocks]\<rparr>
      | None \<Rightarrow> v)"
| "TutorialParser_Accept parse (Course p cs) v = fold (TutorialParser_Accept parse) cs v"
| "TutorialParser_Accept parse (TopCourse p cs) v = fold (TutorialParser_Accept parse) cs v"

subsection \<open>TutorialNavPrinter\<close>

text \<open>Decimal digits of a counter, as \<^verbatim>\<open>strconv.Itoa\<close> writes a number that is not negative.\<close>

fun Itoa :: "nat \<Rightarrow> string" where
  "Itoa n =
     (if n < 10 then [''0123456789'' ! n]
      else Itoa (n div 10) @ [''0123456789'' ! (n mod 10)])"

declare Itoa.simps [simp del]

text \<open>
  Modelled from the spec: the navigation printer (\<^verbatim>\<open>NewTutorialNavPrinter\<close> and its three
  visit methods) is not among the sources; only its test is. Its state is "a write cursor
  and a monotonically increasing integer counter" for the ids \<^verbatim>\<open>n<k>\<close>, and "a second
  counter tracks Lesson index in document order for leaf handles" \<^verbatim>\<open>L<i>\<close>; the
  nesting depth gives the indentation.
\<close>

record NavPrinter =
  depth :: nat
  containers :: nat
  leaves :: nat
  out :: string


text \<open>
  Modelled from the spec: "Indentation is 2 spaces per nesting depth; every emitted line
  ends with a newline".
\<close>

definition nav_line :: "string \<Rightarrow> NavPrinter \<Rightarrow> NavPrinter" where
  "nav_line s v = v\<lparr>out := out v @ replicate (2 * depth v) CHR '' '' @ s @ [CHR 0x0A]\<rparr>"

text \<open>
  Modelled from the spec: a rendered node is wrapped in a \<^verbatim>\<open>lnav1\<close> element whose
  \<^verbatim>\<open>data-name\<close> shows an empty name as a dot; a node "with no rendered sub-containers of
  its own renders a terminal leaf handle" \<^verbatim>\<open>assureActive('L<i>')\<close> and takes the next leaf
  index, any other node renders \<^verbatim>\<open>toggle('n<k>')\<close>; then the body element with id
  \<^verbatim>\<open>n<k>\<close> opens, \<^verbatim>\<open>k\<close> being "the id assigned when this container was entered"; "the
  outermost rendered container defaults to open", "every container nested beneath it
  defaults to closed".
\<close>

definition nav_open :: "string \<Rightarrow> bool \<Rightarrow> NavPrinter \<Rightarrow> NavPrinter" where
  \<open>nav_open name leaf v =
     (let k = containers v + 1;
          v1 = nav_line (''<div class='lnav1' data-name="'' @
                         (if name = [] then ''.'' else name) @ ''">'') v;
          v2 = v1\<lparr>depth := depth v1 + 1, containers := k\<rparr>;
          v3 = (if leaf
                then (nav_line (''<div onclick="assureActive('L'' @ Itoa (leaves v2) @
                                [CHR 0x27] @ '')">'' @ name @ ''</div>'') v2)
                       \<lparr>leaves := leaves v2 + 1\<rparr>
                else nav_line (''<div onclick="toggle('n'' @ Itoa k @
                               [CHR 0x27] @ '')">'' @ name @ ''</div>'') v2);
          v4 = nav_line (''<div id='n'' @ Itoa k @ [CHR 0x27] @ '' style='display: '' @
                         (if depth v = 0 then ''block'' else ''none'') @ '';'>'') v3
      in v4\<lparr>depth := depth v4 + 1\<rparr>)\<close>

text \<open>Modelled from the spec: the body element and the wrapper close, each on its own line.\<close>

definition nav_close :: "NavPrinter \<Rightarrow> NavPrinter" where
  "nav_close v =
     (let v1 = nav_line ''</div>'' (v\<lparr>depth := depth v - 1\<rparr>)
      in nav_line ''</div>'' (v1\<lparr>depth := depth v1 - 1\<rparr>))"

text \<open>
  Modelled from the spec: the three visit methods of the navigation printer; children are
  rendered inside the body element, "in stored order".
\<close>

fun NavPrinter_Accept :: "(FilePath \<Rightarrow> string) \<Rightarrow> tutorial \<Rightarrow> NavPrinter \<Rightarrow> NavPrinter" where
  "NavPrinter_Accept base (Lesson p c) v =
     nav_close (nav_open (Name base (Lesson p c)) True v)"
| "NavPrinter_Accept base (Course p cs) v =
     nav_close (fold (NavPrinter_Accept base) cs
       (nav_open (Name base (Course p cs)) (cs = []) v))"
| "NavPrinter_Accept base (TopCourse p cs) v =
     nav_close (fold (NavPrinter_Accept base) cs
       (nav_open (Name base (TopCourse p cs)) (cs = []) v))"

text \<open>
  The two trees and the two expected fragments of the test \<^verbatim>\<open>TestNavPrinter\<close>
  (\<^verbatim>\<open>npTests\<close>). The test builds its lesson from an empty block map; the navigation printer
  reads names only, so the lesson is the one with the empty path and no content.
\<close>

definition emptyLesson :: tutorial where
  "emptyLesson = Lesson [] []"

definition course1 :: tutorial where
  "course1 = Course ''hey'' [emptyLesson]"

definition lines_text :: "string list \<Rightarrow> string" where
  "lines_text ls = concat (map (\<lambda>l. l @ [CHR 0x0A]) ls)"



section \<open>Notions the properties are stated with\<close>

text \<open>
  The nodes of a tree in pre-order, depth first: a node before its children, the children
  in stored order.
\<close>

fun preorder :: "tutorial \<Rightarrow> tutorial list" where
  "preorder (Lesson p c) = [Lesson p c]"
| "preorder (Course p cs) = Course p cs # concat (map preorder cs)"
| "preorder (TopCourse p cs) = TopCourse p cs # concat (map preorder cs)"

fun isLesson :: "tutorial \<Rightarrow> bool" where
  "isLesson (Lesson p c) = True"
| "isLesson (Course p cs) = False"
| "isLesson (TopCourse p cs) = False"

fun isTopCourse :: "tutorial \<Rightarrow> bool" where
  "isTopCourse (Lesson p c) = False"
| "isTopCourse (Course p cs) = False"
| "isTopCourse (TopCourse p cs) = True"

definition lessons :: "tutorial \<Rightarrow> tutorial list" where
  "lessons t = filter isLesson (preorder t)"

text \<open>A lesson has no children and a course has at least one.\<close>

fun children_ok :: "tutorial \<Rightarrow> bool" where
  "children_ok (Lesson p c) = (Children (Lesson p c) = [])"
| "children_ok (Course p cs) = (Children (Course p cs) \<noteq> [])"
| "children_ok (TopCourse p cs) = True"

text \<open>What \<open>scanDir\<close> builds: nodes with the right children, none of them a top course.\<close>

definition scanned :: "tutorial \<Rightarrow> bool" where
  "scanned t = list_all (\<lambda>n. children_ok n \<and> \<not> isTopCourse n) (preorder t)"

text \<open>
  What one path contributes to the slice \<^verbatim>\<open>items\<close> in the loops of \<^verbatim>\<open>scanDir\<close> and
  \<^verbatim>\<open>LoadMany\<close>, which have the same body.
\<close>

definition entry :: "fsys \<Rightarrow> nat \<Rightarrow> FilePath \<Rightarrow> (error + tutorial list) outcome option" where
  "entry fs k p =
     (case isDesirableFile fs p of
        Panics \<Rightarrow> Some Panics
      | Returns True \<Rightarrow>
          (case scanFile fs p of
             Inl err \<Rightarrow> Some (Returns (Inl err))
           | Inr l \<Rightarrow> Some (Returns (Inr [l])))
      | Returns False \<Rightarrow>
          (case isDesirableDir fs p of
             Panics \<Rightarrow> Some Panics
           | Returns True \<Rightarrow>
               (case scanDir fs k p of
                  None \<Rightarrow> None
                | Some Panics \<Rightarrow> Some Panics
                | Some (Returns (Failed err)) \<Rightarrow> Some (Returns (Inl err))
                | Some (Returns Absent) \<Rightarrow> Some (Returns (Inr []))
                | Some (Returns (Present c)) \<Rightarrow> Some (Returns (Inr [c])))
           | Returns False \<Rightarrow> Some (Returns (Inr []))))"

text \<open>
  The directories below \<open>d\<close> nest less than \<open>k\<close> deep: a listing fails or lists entries
  that nest less than \<open>k - 1\<close> deep. Fuel \<open>k\<close> is then enough for the scan of \<open>d\<close>.
\<close>

fun within_depth :: "fsys \<Rightarrow> nat \<Rightarrow> FilePath \<Rightarrow> bool" where
  "within_depth fs 0 d = False"
| "within_depth fs (Suc k) d =
     (case ReadDir fs d of
        Inl err \<Rightarrow> True
      | Inr files \<Rightarrow> list_all (\<lambda>f. within_depth fs k (Join fs d f)) files)"


text \<open>
  The nodes in pre-order, each with the indentation the printer has when it visits the
  node: a course indents its children by 3, a top course does not.
\<close>

fun preorder_indent :: "int \<Rightarrow> tutorial \<Rightarrow> (int \<times> tutorial) list" where
  "preorder_indent i (Lesson p c) = [(i, Lesson p c)]"
| "preorder_indent i (Course p cs) =
     (i, Course p cs) # concat (map (preorder_indent (i + 3)) cs)"
| "preorder_indent i (TopCourse p cs) =
     (i, TopCourse p cs) # concat (map (preorder_indent i) cs)"

text \<open>
  The text the printer writes for a node visited at an indentation: the line of a lesson,
  the line of a course, nothing for a top course.
\<close>

fun printer_line ::
  "(FilePath \<Rightarrow> string) \<Rightarrow> (string \<Rightarrow> int \<Rightarrow> string) \<Rightarrow> int \<times> tutorial \<Rightarrow> string" where
  "printer_line base sample (i, Lesson p c) =
     replicate (nat i) CHR '' '' @ base p @ '' --- '' @ sample c 60 @ ''...'' @ [CHR 0x0A]"
| "printer_line base sample (i, Course p cs) =
     replicate (nat i) CHR '' '' @ base p @ [CHR 0x0A]"
| "printer_line base sample (i, TopCourse p cs) = []"

text \<open>The nodes without children, in pre-order: the nodes that get a leaf handle.\<close>

definition leaf_nodes :: "tutorial \<Rightarrow> tutorial list" where
  "leaf_nodes t = filter (\<lambda>n. Children n = []) (preorder t)"

text \<open>
  What the navigation printer does along a tree, in order: it enters a node (at a depth,
  with so many ids and leaf handles given out before) and, after the children, leaves it.
  The counts before a child are those before the node plus what the node itself and the
  earlier children take.
\<close>

datatype nav_item = Enter nat nat nat tutorial | Leave nat

fun nav_items :: "nat \<Rightarrow> nat \<Rightarrow> nat \<Rightarrow> tutorial \<Rightarrow> nav_item list"
  and nav_items_list :: "nat \<Rightarrow> nat \<Rightarrow> nat \<Rightarrow> tutorial list \<Rightarrow> nav_item list"
where
  "nav_items d k i (Lesson p c) = [Enter d k i (Lesson p c), Leave d]"
| "nav_items d k i (Course p cs) =
     Enter d k i (Course p cs) # nav_items_list (d + 2) (k + 1) i cs @ [Leave d]"
| "nav_items d k i (TopCourse p cs) =
     Enter d k i (TopCourse p cs) # nav_items_list (d + 2) (k + 1) i cs @ [Leave d]"
| "nav_items_list d k i [] = []"
| "nav_items_list d k i (c # cs) =
     nav_items d k i c @
     nav_items_list d (k + length (preorder c)) (i + length (leaf_nodes c)) cs"

text \<open>
  The text written on entering a node (the three lines of \<open>nav_open\<close> at that depth and
  those counts) and on leaving it (the two lines of \<open>nav_close\<close>).
\<close>

definition nav_open_text :: "string \<Rightarrow> bool \<Rightarrow> nat \<Rightarrow> nat \<Rightarrow> nat \<Rightarrow> string" where
  "nav_open_text name leaf d k i =
     out (nav_open name leaf \<lparr>depth = d, containers = k, leaves = i, out = []\<rparr>)"

definition nav_close_text :: "nat \<Rightarrow> string" where
  "nav_close_text d = out (nav_close \<lparr>depth = d + 2, containers = 0, leaves = 0, out = []\<rparr>)"

fun nav_text :: "(FilePath \<Rightarrow> string) \<Rightarrow> nav_item \<Rightarrow> string" where
  "nav_text base (Enter d k i n) = nav_open_text (Name base n) (Children n = []) d k i"
| "nav_text base (Leave d) = nav_close_text d"

text \<open>
  The id a node is given when it is entered, and the leaf index a node without children
  is given.
\<close>

fun entered :: "nav_item \<Rightarrow> (nat \<times> tutorial) option" where
  "entered (Enter d k i n) = Some (k + 1, n)"
| "entered (Leave d) = None"

fun leaf_entered :: "nav_item \<Rightarrow> (nat \<times> tutorial) option" where
  "leaf_entered (Enter d k i n) = (if Children n = [] then Some (i, n) else None)"
| "leaf_entered (Leave d) = None"

text \<open>What a lesson adds to the parser's results: its path with the blocks found under the label.\<close>

definition parsed ::
  "(string \<Rightarrow> 'l \<rightharpoonup> 'b list) \<Rightarrow> 'l \<Rightarrow> tutorial \<Rightarrow> (FilePath \<times> 'b list) option" where
  "parsed parse l n = map_option (NewParsedFile (Path n)) (parse (Content n) l)"

text \<open>The trees the loader builds from the small file system.\<close>

definition demo_course :: tutorial where
  "demo_course =
     Course ''tut''
       [Lesson ''tut/01_intro.md'' ''# Intro'', Course ''tut/sub'' [Lesson ''tut/sub/a.md'' ''A'']]"

definition demo_top :: tutorial where
  "demo_top = TopCourse ''tut'' (Children demo_course)"

definition demo_many :: tutorial where
  "demo_many =
     TopCourse [] [Course ''tut/sub'' [Lesson ''tut/sub/a.md'' ''A''], Lesson ''tut/01_intro.md'' ''# Intro'']"

section \<open>Facts about the filters and the scanner\<close>

lemma LoadMany_loop_Cons:
  "LoadMany_loop fs k (f # fileNames) items =
     (case entry fs k f of
        Some (Returns (Inr xs)) \<Rightarrow> LoadMany_loop fs k fileNames (items @ xs)
      | r \<Rightarrow> r)"
  by (simp add: entry_def split: outcome.split bool.split sum.split option.split ret.split)

lemma scanDir_loop_LoadMany_loop:
  "scanDir_loop fs k d files items = LoadMany_loop fs k (map (Join fs d) files) items"
  by (induction files arbitrary: items)
     (simp_all add: Let_def split: outcome.split bool.split sum.split option.split ret.split)

lemma LoadMany_loop_Inr_iff:
  "LoadMany_loop fs k fileNames items = Some (Returns (Inr items')) \<longleftrightarrow>
     (\<exists>xss. list_all2 (\<lambda>f xs. entry fs k f = Some (Returns (Inr xs))) fileNames xss \<and>
            items' = items @ concat xss)"
proof (induction fileNames arbitrary: items)
  case Nil
  show ?case by auto
next
  case (Cons f fileNames)
  show ?case
  proof (cases "\<exists>xs. entry fs k f = Some (Returns (Inr xs))")
    case True
    then obtain xs where xs: "entry fs k f = Some (Returns (Inr xs))" by blast
    show ?thesis
      unfolding LoadMany_loop_Cons list_all2_Cons1
      using xs Cons.IH [of "items @ xs"] by auto
  next
    case False
    then show ?thesis
      unfolding LoadMany_loop_Cons list_all2_Cons1
      by (auto split: option.splits outcome.splits sum.splits)
  qed
qed






lemma scanFile_Inr: "scanFile fs n = Inr l \<Longrightarrow> \<exists>c. Read fs n = Inr c \<and> l = Lesson n c"
  by (auto simp: scanFile_def split: sum.splits)

lemma scanned_Lesson: "scanned (Lesson p c)"
  by (simp add: scanned_def)

lemma scanned_Course: "items \<noteq> [] \<Longrightarrow> list_all scanned items \<Longrightarrow> scanned (Course d items)"
  by (auto simp: scanned_def list_all_iff)

lemma entry_scanned:
  assumes H: "\<And>p c. scanDir fs k p = Some (Returns (Present c)) \<Longrightarrow> scanned c"
  shows "entry fs k p = Some (Returns (Inr xs)) \<Longrightarrow> list_all scanned xs"
  unfolding entry_def
  by (auto split: outcome.splits bool.splits sum.splits option.splits ret.splits
      dest!: H scanFile_Inr simp: scanned_Lesson)

lemma LoadMany_loop_scanned:
  assumes H: "\<And>p c. scanDir fs k p = Some (Returns (Present c)) \<Longrightarrow> scanned c"
    and run: "LoadMany_loop fs k fileNames items = Some (Returns (Inr items'))"
    and items: "list_all scanned items"
  shows "list_all scanned items'"
proof -
  from run obtain xss where
    xss: "list_all2 (\<lambda>f xs. entry fs k f = Some (Returns (Inr xs))) fileNames xss"
    and eq: "items' = items @ concat xss"
    unfolding LoadMany_loop_Inr_iff by blast
  have es: "\<And>p xs. entry fs k p = Some (Returns (Inr xs)) \<Longrightarrow> list_all scanned xs"
    by (rule entry_scanned [of fs k]) (rule H)
  have "\<forall>xs \<in> set xss. list_all scanned xs"
    using xss es by (fastforce simp: list_all2_conv_all_nth in_set_conv_nth)
  with items eq show ?thesis by (auto simp: list_all_iff)
qed

lemma scanDir_Present:
  "scanDir fs k d = Some (Returns (Present c)) \<Longrightarrow>
     \<exists>items. c = Course d items \<and> items \<noteq> [] \<and> list_all scanned items"
proof (induction k arbitrary: d c)
  case 0
  then show ?case by simp
next
  case (Suc k)
  have H: "\<And>p c. scanDir fs k p = Some (Returns (Present c)) \<Longrightarrow> scanned c"
    using Suc.IH scanned_Course by blast
  from Suc.prems obtain files items where
    files: "ReadDir fs d = Inr files"
    and run: "LoadMany_loop fs k (map (Join fs d) files) [] = Some (Returns (Inr items))"
    and c: "c = Course d items" "items \<noteq> []"
    by (auto simp: scanDir_loop_LoadMany_loop simp del: scanDir_loop.simps
        split: sum.splits option.splits outcome.splits if_splits)
  from LoadMany_loop_scanned [OF H run] have "list_all scanned items" by simp
  with c show ?case by blast
qed

lemma scanDir_scanned: "scanDir fs k d = Some (Returns (Present c)) \<Longrightarrow> scanned c"
  using scanDir_Present scanned_Course by blast









lemma filepath_Base_nonempty: "filepath_Base path \<noteq> []"
  by (simp add: filepath_Base_def Let_def)

lemma isDesirableFile_True_iff:
  "isDesirableFile fs n = Returns True \<longleftrightarrow>
     (\<exists>s. Stat fs n = Inr s \<and> \<not> IsDir s \<and> IsRegular s \<and> filepath_Ext (InfoName s) = ''.md'' \<and>
          hd (filepath_Base (InfoName s)) \<notin> {CHR ''~'', CHR ''.'', CHR ''#''})"
  using filepath_Base_nonempty
  by (auto simp: isDesirableFile_def badLeadingChar_def split: sum.splits list.splits)

lemma isDesirableFile_False_iff:
  "isDesirableFile fs n = Returns False \<longleftrightarrow>
     (\<exists>s. Stat fs n = Inr s \<and>
          \<not> (\<not> IsDir s \<and> IsRegular s \<and> filepath_Ext (InfoName s) = ''.md'' \<and>
             hd (filepath_Base (InfoName s)) \<notin> {CHR ''~'', CHR ''.'', CHR ''#''}))"
  using filepath_Base_nonempty
  by (auto simp: isDesirableFile_def badLeadingChar_def split: sum.splits list.splits)

lemma isDesirableFile_Panics_iff:
  "isDesirableFile fs n = Panics \<longleftrightarrow> (\<exists>err. Stat fs n = Inl err)"
  using filepath_Base_nonempty
  by (auto simp: isDesirableFile_def split: sum.splits list.splits)

lemma strings_HasPrefix_dot:
  "strings_HasPrefix s ''.'' \<longleftrightarrow> s \<noteq> [] \<and> hd s = CHR ''.''"
  by (cases s) (auto simp: strings_HasPrefix_def)

lemma isDesirableDir_True_iff:
  "isDesirableDir fs n = Returns True \<longleftrightarrow>
     (\<exists>s. Stat fs n = Inr s \<and> IsDir s \<and>
          (InfoName s \<in> {''.'', ''./'', ''..''} \<or> hd (filepath_Base (InfoName s)) \<noteq> CHR ''.''))"
  using filepath_Base_nonempty
  by (auto simp: isDesirableDir_def strings_HasPrefix_dot split: sum.splits)

lemma isDesirableDir_Panics_iff:
  "isDesirableDir fs n = Panics \<longleftrightarrow> (\<exists>err. Stat fs n = Inl err)"
  by (auto simp: isDesirableDir_def split: sum.splits)

lemma scanned_no_TopCourse: "scanned t \<Longrightarrow> filter isTopCourse (preorder t) = []"
  by (auto simp: scanned_def list_all_iff filter_empty_conv)

lemma scanned_children_ok: "scanned t \<Longrightarrow> list_all children_ok (preorder t)"
  by (auto simp: scanned_def list_all_iff)

lemma TopCourse_of_scanned:
  assumes "list_all scanned items"
  shows "filter isTopCourse (preorder (TopCourse p items)) = [TopCourse p items]"
    and "list_all children_ok (preorder (TopCourse p items))"
  using assms
  by (auto simp: scanned_def list_all_iff filter_concat filter_empty_conv)

lemma LoadOne_Present:
  assumes "LoadOne fs k root = Some (Returns (Present t))"
  shows "(isDesirableFile fs root = Returns True \<and> (\<exists>c. Read fs root = Inr c \<and> t = Lesson root c)) \<or>
         (isDesirableFile fs root = Returns False \<and> isDesirableDir fs root = Returns True \<and>
          (\<exists>items. scanDir fs k root = Some (Returns (Present (Course root items))) \<and>
                   items \<noteq> [] \<and> list_all scanned items \<and> t = TopCourse root items))"
proof (cases "isDesirableFile fs root")
  case Panics
  with assms show ?thesis by (simp add: LoadOne_def)
next
  case (Returns b)
  show ?thesis
  proof (cases b)
    case True
    with Returns assms show ?thesis
      by (auto simp: LoadOne_def split: sum.splits dest!: scanFile_Inr)
  next
    case False
    with Returns assms obtain c where
      "isDesirableDir fs root = Returns True"
      "scanDir fs k root = Some (Returns (Present c))" "t = TopCourse root (Children c)"
      by (auto simp: LoadOne_def split: outcome.splits bool.splits option.splits ret.splits)
    with Returns False scanDir_Present [of fs k root c] show ?thesis by auto
  qed
qed

lemma LoadMany_single: "LoadMany fs k [root] = LoadOne fs k root"
  by (simp add: LoadMany_def)

lemma LoadMany_Present:
  assumes "2 \<le> length fileNames" and "LoadMany fs k fileNames = Some (Returns (Present t))"
  shows "\<exists>items. t = TopCourse [] items \<and> items \<noteq> [] \<and> list_all scanned items"
proof -
  from assms obtain items where
    run: "LoadMany_loop fs k fileNames [] = Some (Returns (Inr items))"
    and t: "t = TopCourse [] items" "items \<noteq> []"
    by (auto simp: LoadMany_def split: option.splits outcome.splits sum.splits if_splits)
  have "list_all scanned items"
    by (rule LoadMany_loop_scanned [OF _ run]) (auto intro: scanDir_scanned)
  with t show ?thesis by blast
qed

lemma loaded_cases:
  assumes "LoadOne fs k root = Some (Returns (Present t)) \<or>
           LoadMany fs k fileNames = Some (Returns (Present t))"
  shows "(\<exists>p c. t = Lesson p c) \<or> (\<exists>p items. t = TopCourse p items \<and> list_all scanned items)"
proof -
  consider (one) r where "LoadOne fs k r = Some (Returns (Present t))"
    | (many) "2 \<le> length fileNames" "LoadMany fs k fileNames = Some (Returns (Present t))"
    using assms
    by (cases fileNames rule: list.exhaust; cases "tl fileNames")
       (auto simp: LoadMany_def split: if_splits)
  then show ?thesis
  proof cases
    case one
    from LoadOne_Present [OF one] show ?thesis by blast
  next
    case many
    from LoadMany_Present [OF many] show ?thesis by blast
  qed
qed



lemma demo_LoadOne: "LoadOne demo_fs 3 ''tut'' = Some (Returns (Present demo_top))"
  by code_simp

lemma demo_LoadOne_empty:
  "LoadOne demo_fs 1 ''tut/empty'' = Some (Returns (Failed ''Cannot process tut/empty''))"
  by code_simp

lemma demo_LoadMany:
  "LoadMany demo_fs 3 [''tut/sub'', ''tut/01_intro.md''] = Some (Returns (Present demo_many))"
  by code_simp

text \<open>
  When \<open>LoadOne\<close> returns an error, it is the read error of the root file, an error of the
  scan of the root directory, or the "Cannot process" error of a root that both filters
  turn down or whose scan is pruned to nothing.
\<close>

lemma LoadOne_Failed_iff:
  "LoadOne fs k root = Some (Returns (Failed e)) \<longleftrightarrow>
     (isDesirableFile fs root = Returns True \<and> Read fs root = Inl e) \<or>
     (isDesirableFile fs root = Returns False \<and> isDesirableDir fs root = Returns True \<and>
      scanDir fs k root = Some (Returns (Failed e))) \<or>
     (isDesirableFile fs root = Returns False \<and> isDesirableDir fs root = Returns True \<and>
      scanDir fs k root = Some (Returns Absent) \<and> e = ''Cannot process '' @ root) \<or>
     (isDesirableFile fs root = Returns False \<and> isDesirableDir fs root = Returns False \<and>
      e = ''Cannot process '' @ root)"
  by (auto simp: LoadOne_def scanFile_def
      split: outcome.splits bool.splits sum.splits option.splits ret.splits)

text \<open>The scan returns whenever the fuel covers the depth of the directory tree.\<close>

lemma entry_returns:
  assumes "isDesirableDir fs p = Returns True \<Longrightarrow> \<exists>r. scanDir fs k p = Some r"
  shows "\<exists>r. entry fs k p = Some r"
  using assms unfolding entry_def
  by (auto split: outcome.splits bool.splits sum.splits option.splits ret.splits)

lemma LoadMany_loop_returns:
  assumes "\<And>p. p \<in> set fileNames \<Longrightarrow> \<exists>r. scanDir fs k p = Some r"
  shows "\<exists>r. LoadMany_loop fs k fileNames items = Some r"
  using assms
proof (induction fileNames arbitrary: items)
  case Nil
  show ?case by simp
next
  case (Cons f fileNames)
  obtain e where e: "entry fs k f = Some e"
    using entry_returns [of fs f k] Cons.prems by auto
  have rest: "\<exists>r. LoadMany_loop fs k fileNames items' = Some r" for items'
    by (rule Cons.IH) (simp add: Cons.prems)
  show ?case
    unfolding LoadMany_loop_Cons using e rest
    by (auto split: outcome.splits sum.splits)
qed

lemma scanDir_returns: "within_depth fs k d \<Longrightarrow> \<exists>r. scanDir fs k d = Some r"
proof (induction k arbitrary: d)
  case 0
  then show ?case by simp
next
  case (Suc k)
  show ?case
  proof (cases "ReadDir fs d")
    case (Inl err)
    then show ?thesis by simp
  next
    case (Inr files)
    with Suc.prems have "\<And>p. p \<in> set (map (Join fs d) files) \<Longrightarrow> within_depth fs k p"
      by (auto simp: list_all_iff)
    then have "\<exists>r. LoadMany_loop fs k (map (Join fs d) files) [] = Some r"
      by (intro LoadMany_loop_returns Suc.IH)
    then obtain r where "scanDir_loop fs k d files [] = Some r"
      by (auto simp: scanDir_loop_LoadMany_loop)
    with Inr show ?thesis
      by (auto simp del: scanDir_loop.simps split: outcome.splits sum.splits)
  qed
qed

lemma LoadOne_returns: "within_depth fs k root \<Longrightarrow> \<exists>r. LoadOne fs k root = Some r"
  using scanDir_returns [of fs k root]
  by (auto simp: LoadOne_def split: outcome.splits bool.splits sum.splits option.splits ret.splits)

lemma demo_within_depth: "within_depth demo_fs 3 ''tut''"
  by code_simp

section \<open>Facts about the visitors\<close>

lemma spaces_replicate: "spaces n = replicate (nat n) CHR '' ''"
proof (cases "n < 1")
  case True
  then show ?thesis by (simp add: spaces_def)
next
  case False
  then obtain m where "nat n = Suc m" by (cases "nat n") auto
  with False show ?thesis
    by (simp add: spaces_def replicate_append_same)
qed

lemma fold_indent:
  assumes "\<And>x v. x \<in> set cs \<Longrightarrow> indent (f x v) = indent v"
  shows "indent (fold f cs v) = indent v"
  using assms by (induction cs arbitrary: v) simp_all

lemma TutorialPrinter_indent:
  "indent (TutorialPrinter_Accept base sample t v) = indent v"
proof (induction t arbitrary: v)
  case (Lesson p c)
  show ?case by simp
next
  case (Course p cs)
  then show ?case by (simp add: Let_def fold_indent)
next
  case (TopCourse p cs)
  then show ?case by (simp add: fold_indent)
qed

lemma map_filter_append:
  "List.map_filter f (xs @ ys) = List.map_filter f xs @ List.map_filter f ys"
  by (simp add: List.map_filter_def)

lemma lessons_simps:
  "lessons (Lesson p c) = [Lesson p c]"
  "lessons (Course p cs) = concat (map lessons cs)"
  "lessons (TopCourse p cs) = concat (map lessons cs)"
  by (simp_all add: lessons_def [abs_def] filter_concat comp_def)

lemma fold_parser:
  assumes "\<And>x v. x \<in> set cs \<Longrightarrow>
     parsedFiles (f x v) = parsedFiles v @ List.map_filter (g (label v)) (lessons x) \<and>
     label (f x v) = label v"
  shows "parsedFiles (fold f cs v) =
           parsedFiles v @ List.map_filter (g (label v)) (concat (map lessons cs)) \<and>
         label (fold f cs v) = label v"
  using assms
proof (induction cs arbitrary: v)
  case Nil
  show ?case by (simp add: List.map_filter_simps)
next
  case (Cons x cs)
  have x: "parsedFiles (f x v) = parsedFiles v @ List.map_filter (g (label v)) (lessons x)"
    "label (f x v) = label v"
    using Cons.prems [of x v] by simp_all
  have "parsedFiles (fold f cs (f x v)) =
          parsedFiles (f x v) @ List.map_filter (g (label (f x v))) (concat (map lessons cs)) \<and>
        label (fold f cs (f x v)) = label (f x v)"
    by (rule Cons.IH) (simp add: Cons.prems)
  with x show ?case by (simp add: map_filter_append)
qed

lemma TutorialParser_files:
  "parsedFiles (TutorialParser_Accept parse t v) =
     parsedFiles v @ List.map_filter (parsed parse (label v)) (lessons t) \<and>
   label (TutorialParser_Accept parse t v) = label v"
proof (induction t arbitrary: v)
  case (Lesson p c)
  show ?case
    by (simp add: lessons_simps parsed_def List.map_filter_simps split: option.split)
next
  case (Course p cs)
  then show ?case
    using fold_parser [of cs "TutorialParser_Accept parse" "parsed parse" v]
    by (simp add: lessons_simps)
next
  case (TopCourse p cs)
  then show ?case
    using fold_parser [of cs "TutorialParser_Accept parse" "parsed parse" v]
    by (simp add: lessons_simps)
qed

lemma map_snd_preorder_indent: "map snd (preorder_indent i t) = preorder t"
proof (induction t arbitrary: i)
  case (Lesson p c)
  show ?case by simp
next
  case (Course p cs)
  then have eq: "map (\<lambda>x. map snd (preorder_indent (i + 3) x)) cs = map preorder cs"
    by (intro map_cong) simp_all
  show ?case by (simp add: map_concat comp_def eq)
next
  case (TopCourse p cs)
  then have eq: "map (\<lambda>x. map snd (preorder_indent i x)) cs = map preorder cs"
    by (intro map_cong) simp_all
  show ?case by (simp add: map_concat comp_def eq)
qed

lemma concat_map_concat:
  "concat (map f (concat xss)) = concat (map (\<lambda>xs. concat (map f xs)) xss)"
  by (induction xss) simp_all

lemma fold_printer:
  assumes "\<And>x v. x \<in> set cs \<Longrightarrow> f x v = v\<lparr>w := w v @ g (indent v) x\<rparr>"
  shows "fold f cs v = v\<lparr>w := w v @ concat (map (g (indent v)) cs)\<rparr>"
  using assms by (induction cs arbitrary: v) simp_all

lemma TutorialPrinter_written:
  "TutorialPrinter_Accept base sample t v =
     v\<lparr>w := w v @ concat (map (printer_line base sample) (preorder_indent (indent v) t))\<rparr>"
proof (induction t arbitrary: v)
  case (Lesson p c)
  show ?case by (simp add: spaces_replicate)
next
  case (Course p cs)
  have "fold (TutorialPrinter_Accept base sample) cs v' =
        v'\<lparr>w := w v' @ concat (map (\<lambda>x. concat (map (printer_line base sample)
              (preorder_indent (indent v') x))) cs)\<rparr>" for v'
    by (rule fold_printer) (rule Course.IH)
  then show ?case
    by (simp add: Let_def spaces_replicate concat_map_concat comp_def)
next
  case (TopCourse p cs)
  have "fold (TutorialPrinter_Accept base sample) cs v' =
        v'\<lparr>w := w v' @ concat (map (\<lambda>x. concat (map (printer_line base sample)
              (preorder_indent (indent v') x))) cs)\<rparr>" for v'
    by (rule fold_printer) (rule TopCourse.IH)
  then show ?case
    by (simp add: concat_map_concat comp_def)
qed


lemma nav_open_state:
  "nav_open name leaf v =
     v\<lparr>depth := depth v + 2, containers := containers v + 1,
       leaves := leaves v + (if leaf then 1 else 0),
       out := out v @ nav_open_text name leaf (depth v) (containers v) (leaves v)\<rparr>"
  by (cases v) (simp add: nav_open_text_def nav_open_def nav_line_def Let_def)

lemma nav_close_state:
  "depth v = Suc (Suc d) \<Longrightarrow>
   nav_close v = v\<lparr>depth := d, out := out v @ nav_close_text d\<rparr>"
  by (cases v) (simp add: nav_close_text_def nav_close_def nav_line_def Let_def)

lemma leaf_nodes_simps:
  "leaf_nodes (Lesson p c) = [Lesson p c]"
  "leaf_nodes (Course p cs) = (if cs = [] then [Course p cs] else concat (map leaf_nodes cs))"
  "leaf_nodes (TopCourse p cs) = (if cs = [] then [TopCourse p cs] else concat (map leaf_nodes cs))"
  by (simp_all add: leaf_nodes_def [abs_def] filter_concat comp_def)

lemma fold_nav:
  assumes "\<And>x v. x \<in> set cs \<Longrightarrow>
     f x v = v\<lparr>containers := containers v + length (preorder x),
               leaves := leaves v + length (leaf_nodes x),
               out := out v @ concat (map T (nav_items (depth v) (containers v) (leaves v) x))\<rparr>"
  shows "fold f cs v =
     v\<lparr>containers := containers v + length (concat (map preorder cs)),
       leaves := leaves v + length (concat (map leaf_nodes cs)),
       out := out v @ concat (map T (nav_items_list (depth v) (containers v) (leaves v) cs))\<rparr>"
  using assms by (induction cs arbitrary: v) (simp_all add: add.assoc)

lemma NavPrinter_written:
  "NavPrinter_Accept base t v =
     v\<lparr>containers := containers v + length (preorder t),
       leaves := leaves v + length (leaf_nodes t),
       out := out v @ concat (map (nav_text base) (nav_items (depth v) (containers v) (leaves v) t))\<rparr>"
proof (induction t arbitrary: v)
  case (Lesson p c)
  show ?case
    by (cases v) (simp add: nav_open_state nav_close_state leaf_nodes_simps)
next
  case (Course p cs)
  have children: "fold (NavPrinter_Accept base) cs v' =
     v'\<lparr>containers := containers v' + length (concat (map preorder cs)),
        leaves := leaves v' + length (concat (map leaf_nodes cs)),
        out := out v' @ concat (map (nav_text base)
                 (nav_items_list (depth v') (containers v') (leaves v') cs))\<rparr>" for v'
    by (rule fold_nav) (rule Course.IH)
  show ?case
    by (cases v) (simp add: nav_open_state nav_close_state leaf_nodes_simps children)
next
  case (TopCourse p cs)
  have children: "fold (NavPrinter_Accept base) cs v' =
     v'\<lparr>containers := containers v' + length (concat (map preorder cs)),
        leaves := leaves v' + length (concat (map leaf_nodes cs)),
        out := out v' @ concat (map (nav_text base)
                 (nav_items_list (depth v') (containers v') (leaves v') cs))\<rparr>" for v'
    by (rule fold_nav) (rule TopCourse.IH)
  show ?case
    by (cases v) (simp add: nav_open_state nav_close_state leaf_nodes_simps children)
qed

lemma entered_list:
  assumes "\<And>x d k i. x \<in> set cs \<Longrightarrow>
     List.map_filter entered (nav_items d k i x) = enumerate (Suc k) (preorder x)"
  shows "List.map_filter entered (nav_items_list d k i cs) =
         enumerate (Suc k) (concat (map preorder cs))"
  using assms
  by (induction cs arbitrary: k i) (simp_all add: map_filter_append enumerate_append_eq)

lemma entered_preorder:
  "List.map_filter entered (nav_items d k i t) = enumerate (Suc k) (preorder t)"
proof (induction t arbitrary: d k i)
  case (Lesson p c)
  show ?case by (simp add: List.map_filter_simps)
next
  case (Course p cs)
  have "List.map_filter entered (nav_items_list d' k' i' cs) =
        enumerate (Suc k') (concat (map preorder cs))" for d' k' i'
    by (rule entered_list) (rule Course.IH)
  then show ?case by (simp add: List.map_filter_simps map_filter_append)
next
  case (TopCourse p cs)
  have "List.map_filter entered (nav_items_list d' k' i' cs) =
        enumerate (Suc k') (concat (map preorder cs))" for d' k' i'
    by (rule entered_list) (rule TopCourse.IH)
  then show ?case by (simp add: List.map_filter_simps map_filter_append)
qed

lemma leaf_entered_list:
  assumes "\<And>x d k i. x \<in> set cs \<Longrightarrow>
     List.map_filter leaf_entered (nav_items d k i x) = enumerate i (leaf_nodes x)"
  shows "List.map_filter leaf_entered (nav_items_list d k i cs) =
         enumerate i (concat (map leaf_nodes cs))"
  using assms
  by (induction cs arbitrary: k i) (simp_all add: map_filter_append enumerate_append_eq)

lemma leaf_entered_preorder:
  "List.map_filter leaf_entered (nav_items d k i t) = enumerate i (leaf_nodes t)"
proof (induction t arbitrary: d k i)
  case (Lesson p c)
  show ?case by (simp add: List.map_filter_simps leaf_nodes_simps)
next
  case (Course p cs)
  have "List.map_filter leaf_entered (nav_items_list d' k' i' cs) =
        enumerate i' (concat (map leaf_nodes cs))" for d' k' i'
    by (rule leaf_entered_list) (rule Course.IH)
  then show ?case
    by (simp add: List.map_filter_simps map_filter_append leaf_nodes_simps)
next
  case (TopCourse p cs)
  have "List.map_filter leaf_entered (nav_items_list d' k' i' cs) =
        enumerate i' (concat (map leaf_nodes cs))" for d' k' i'
    by (rule leaf_entered_list) (rule TopCourse.IH)
  then show ?case
    by (simp add: List.map_filter_simps map_filter_append leaf_nodes_simps)
qed

lemma isLesson_no_children: "isLesson n \<Longrightarrow> Children n = []"
  by (cases n) simp_all

lemma lessons_leaf_nodes: "filter isLesson (leaf_nodes t) = lessons t"
  by (auto simp: leaf_nodes_def lessons_def intro!: filter_cong dest: isLesson_no_children)

lemma demo_preorder_indent:
  "preorder_indent 0 demo_top =
     [(0, demo_top), (0, Lesson ''tut/01_intro.md'' ''# Intro''),
      (0, Course ''tut/sub'' [Lesson ''tut/sub/a.md'' ''A'']),
      (3, Lesson ''tut/sub/a.md'' ''A'')]"
  by code_simp

lemma course1_nav_items:
  "nav_items 0 0 0 course1 = [Enter 0 0 0 course1, Enter 2 1 0 emptyLesson, Leave 2, Leave 0]"
  by code_simp


lemma out_nav_line:
  "out (nav_line s v) = out v @ lines_text [replicate (2 * depth v) CHR '' '' @ s]"
  by (simp add: nav_line_def lines_text_def)


lemma nav_line_lines: "\<exists>ls. out (nav_line s v) = out v @ lines_text ls"
  using out_nav_line by blast





lemma demo_printer:
  "w (TutorialPrinter_Accept filepath_Base (\<lambda>s n. take (nat n) s) demo_top (NewTutorialPrinter [])) =
     lines_text [''01_intro.md --- # Intro...'', ''sub'', ''   a.md --- A...'']"
  by code_simp

section \<open>The claims\<close>

text \<open>
  C1, as amended. A tree that \<open>LoadOne\<close> returns is a single lesson for the root path, with
  no top course in it, when the root is a desirable file; otherwise its root is the one
  top course of the tree, which has the empty name and carries the root path. A tree that
  \<open>LoadMany\<close> returns for two or more paths has exactly one top course, its root, with
  the empty name and the empty path. \<open>LoadMany\<close> on one path is \<open>LoadOne\<close> on it.
\<close>

theorem loaded_TopCourse:
  "(LoadOne fs k root = Some (Returns (Present t)) \<longrightarrow>
      (isDesirableFile fs root = Returns True \<and> (\<exists>c. t = Lesson root c) \<and>
       filter isTopCourse (preorder t) = []) \<or>
      (isDesirableFile fs root = Returns False \<and> (\<exists>cs. t = TopCourse root cs) \<and>
       filter isTopCourse (preorder t) = [t] \<and> Name base t = [] \<and> Path t = root)) \<and>
   (2 \<le> length fileNames \<and> LoadMany fs k fileNames = Some (Returns (Present t')) \<longrightarrow>
      (\<exists>cs. t' = TopCourse [] cs) \<and> filter isTopCourse (preorder t') = [t'] \<and>
      Name base t' = [] \<and> Path t' = []) \<and>
   LoadMany fs k [root] = LoadOne fs k root"
proof -
  have one: "(isDesirableFile fs root = Returns True \<and> (\<exists>c. t = Lesson root c) \<and>
         filter isTopCourse (preorder t) = []) \<or>
        (isDesirableFile fs root = Returns False \<and> (\<exists>cs. t = TopCourse root cs) \<and>
         filter isTopCourse (preorder t) = [t] \<and> Name base t = [] \<and> Path t = root)"
    if "LoadOne fs k root = Some (Returns (Present t))"
    using LoadOne_Present [OF that] TopCourse_of_scanned(1) by fastforce
  have many: "(\<exists>cs. t' = TopCourse [] cs) \<and> filter isTopCourse (preorder t') = [t'] \<and>
             Name base t' = [] \<and> Path t' = []"
    if "2 \<le> length fileNames \<and> LoadMany fs k fileNames = Some (Returns (Present t'))"
  proof -
    from that obtain items where "t' = TopCourse [] items" "list_all scanned items"
      using LoadMany_Present by blast
    then show ?thesis using TopCourse_of_scanned(1) by fastforce
  qed
  from one many LoadMany_single [of fs k root] show ?thesis by blast
qed

theorem loaded_TopCourse_witness:
  "LoadOne demo_fs 3 ''tut'' = Some (Returns (Present demo_top)) \<and>
   filter isTopCourse (preorder demo_top) = [demo_top] \<and>
   Name filepath_Base demo_top = [] \<and> Path demo_top = ''tut'' \<and>
   2 \<le> length [''tut/sub'', ''tut/01_intro.md''] \<and>
   LoadMany demo_fs 3 [''tut/sub'', ''tut/01_intro.md''] = Some (Returns (Present demo_many)) \<and>
   filter isTopCourse (preorder demo_many) = [demo_many] \<and> Path demo_many = []"
proof -
  have "filter isTopCourse (preorder demo_top) = [demo_top] \<and>
        Name filepath_Base demo_top = [] \<and> Path demo_top = ''tut''"
    using loaded_TopCourse [of demo_fs 3 "''tut''" demo_top filepath_Base "[]" demo_top]
      demo_LoadOne by (auto simp: demo_top_def)
  moreover have "filter isTopCourse (preorder demo_many) = [demo_many] \<and> Path demo_many = []"
    using loaded_TopCourse [of demo_fs 3 "''tut''" demo_top filepath_Base
        "[''tut/sub'', ''tut/01_intro.md'']" demo_many]
      demo_LoadMany by simp
  ultimately show ?thesis using demo_LoadOne demo_LoadMany by simp
qed

text \<open>
  C1 as stated fails: \<open>LoadOne\<close> on a desirable file succeeds with a bare lesson, a tree
  with no top course at all.
\<close>

theorem LoadOne_file_no_TopCourse:
  "LoadOne demo_fs 0 ''tut/01_intro.md'' =
     Some (Returns (Present (Lesson ''tut/01_intro.md'' ''# Intro''))) \<and>
   length (filter isTopCourse (preorder (Lesson ''tut/01_intro.md'' ''# Intro''))) = 0"
  by code_simp

text \<open>
  C2, as amended. At a lesson the parser appends the lesson's path paired with the blocks
  exactly when the map that \<open>parse\<close> gives for the lesson's content has an entry for the
  parser's label, whether or not that block list is empty; without an entry the lesson
  adds nothing. Over a whole tree the results are the earlier ones followed by what the
  lessons add, in pre-order, and the label never changes.
\<close>

theorem TutorialParser_results:
  "TutorialParser_Accept parse (Lesson p c) v =
     (case parse c (label v) of
        None \<Rightarrow> v
      | Some blocks \<Rightarrow> v\<lparr>parsedFiles := parsedFiles v @ [(p, blocks)]\<rparr>) \<and>
   Files (TutorialParser_Accept parse t v) =
     Files v @ List.map_filter (parsed parse (label v)) (lessons t) \<and>
   label (TutorialParser_Accept parse t v) = label v"
  using TutorialParser_files [of parse t v]
  by (simp add: Files_def NewParsedFile_def split: option.split)

text \<open>
  C2 as stated fails: a lesson whose content maps the label to an empty block list still
  adds a result, with no blocks.
\<close>

theorem VisitLesson_empty_blocks:
  "Files (TutorialParser_Accept (\<lambda>c. [''run'' \<mapsto> ([] :: string list)])
            (Lesson ''a.md'' ''text'') (NewTutorialParser ''run'')) = [(''a.md'', [])]"
  by (simp add: Files_def NewTutorialParser_def NewParsedFile_def)




text \<open>
  C5 at a root that does not exist: \<^verbatim>\<open>os.Stat\<close> fails, the filter dereferences the nil
  \<^verbatim>\<open>FileInfo\<close>, and \<open>LoadOne\<close> and \<open>LoadMany\<close> panic where a "Cannot process" error (or
  a skipped candidate) is due.
\<close>

theorem LoadOne_missing_root_panics:
  "LoadOne demo_fs 1 ''missing.md'' = Some Panics \<and>
   LoadMany demo_fs 1 [''missing.md''] = Some Panics \<and>
   LoadMany demo_fs 1 [''missing.md'', ''tut/01_intro.md''] = Some Panics"
  by code_simp

text \<open>
  C6 at a path that does not exist: \<^verbatim>\<open>os.Stat\<close> fails and both filters panic on the nil
  \<^verbatim>\<open>FileInfo\<close> where they are to answer false.
\<close>

theorem isDesirable_missing_panics:
  "Stat demo_fs ''missing.md'' = Inl ''stat missing.md: no such file or directory'' \<and>
   isDesirableFile demo_fs ''missing.md'' = Panics \<and>
   isDesirableDir demo_fs ''missing.md'' = Panics"
  by code_simp

text \<open>
  C7. In a tree that \<open>LoadOne\<close> or \<open>LoadMany\<close> returns, every course has at least one
  child and every lesson has none; \<open>scanDir\<close> never returns a course without children,
  and a scan whose loop accumulates nothing returns "no node".
\<close>

theorem loaded_children_ok:
  "(LoadOne fs k root = Some (Returns (Present t)) \<or>
    LoadMany fs k fileNames = Some (Returns (Present t)) \<longrightarrow>
      list_all children_ok (preorder t)) \<and>
   scanDir fs k d \<noteq> Some (Returns (Present (Course p []))) \<and>
   (ReadDir fs d = Inr files \<and> scanDir_loop fs k d files [] = Some (Returns (Inr [])) \<longrightarrow>
      scanDir fs (Suc k) d = Some (Returns Absent))"
proof -
  have a: "list_all children_ok (preorder t)"
    if "LoadOne fs k root = Some (Returns (Present t)) \<or>
        LoadMany fs k fileNames = Some (Returns (Present t))"
    using loaded_cases [OF that] TopCourse_of_scanned(2) by auto
  have b: "scanDir fs k d \<noteq> Some (Returns (Present (Course p [])))"
    using scanDir_Present [of fs k d "Course p []"] by auto
  have c: "scanDir fs (Suc k) d = Some (Returns Absent)"
    if "ReadDir fs d = Inr files \<and> scanDir_loop fs k d files [] = Some (Returns (Inr []))"
    using that by simp
  from a b c show ?thesis by blast
qed

theorem loaded_children_ok_witness:
  "LoadOne demo_fs 3 ''tut'' = Some (Returns (Present demo_top)) \<and>
   list_all children_ok (preorder demo_top) \<and>
   ReadDir demo_fs ''tut/empty'' = Inr [] \<and>
   scanDir_loop demo_fs 0 ''tut/empty'' [] [] = Some (Returns (Inr [])) \<and>
   scanDir demo_fs 1 ''tut/empty'' = Some (Returns Absent)"
proof -
  have "list_all children_ok (preorder demo_top)"
    using loaded_children_ok [of demo_fs 3 "''tut''" demo_top "[]"] demo_LoadOne by blast
  moreover have l: "ReadDir demo_fs ''tut/empty'' = Inr [] \<and>
      scanDir_loop demo_fs 0 ''tut/empty'' [] [] = Some (Returns (Inr []))"
    by code_simp
  moreover have "scanDir demo_fs 1 ''tut/empty'' = Some (Returns Absent)"
    using loaded_children_ok [of demo_fs 0 "''tut''" demo_top "[]" "''tut/empty''" _ "[]"] l
    by simp
  ultimately show ?thesis using demo_LoadOne by simp
qed

text \<open>
  C8. What each of the three visitors produces follows the one pre-order of the tree.
  The printer writes, after what was written before, the lines of the nodes in pre-order
  (the list \<open>preorder_indent\<close>, whose nodes are \<open>preorder t\<close>). The parser's results
  are the earlier ones followed by what the lessons add, the lessons taken in pre-order.
  The navigation printer writes the texts of the entries and exits of \<open>nav_items\<close>, in
  which the nodes are entered in pre-order, each with the next id, and the nodes without
  children are given the leaf indices in pre-order. The lessons among the printer's
  nodes and among the navigation printer's leaves are the lessons in pre-order.
\<close>

theorem visitors_same_order:
  "w (TutorialPrinter_Accept base sample t pv) =
     w pv @ concat (map (printer_line base sample) (preorder_indent (indent pv) t)) \<and>
   map snd (preorder_indent (indent pv) t) = preorder t \<and>
   Files (TutorialParser_Accept parse t qv) =
     Files qv @ List.map_filter (parsed parse (label qv)) (filter isLesson (preorder t)) \<and>
   out (NavPrinter_Accept base t nv) =
     out nv @ concat (map (nav_text base) (nav_items (depth nv) (containers nv) (leaves nv) t)) \<and>
   List.map_filter entered (nav_items (depth nv) (containers nv) (leaves nv) t) =
     enumerate (Suc (containers nv)) (preorder t) \<and>
   List.map_filter leaf_entered (nav_items (depth nv) (containers nv) (leaves nv) t) =
     enumerate (leaves nv) (leaf_nodes t) \<and>
   filter isLesson (map snd (preorder_indent (indent pv) t)) = lessons t \<and>
   filter isLesson (leaf_nodes t) = lessons t"
proof -
  have printer: "w (TutorialPrinter_Accept base sample t pv) =
      w pv @ concat (map (printer_line base sample) (preorder_indent (indent pv) t))"
    by (simp add: TutorialPrinter_written)
  have parser: "Files (TutorialParser_Accept parse t qv) =
      Files qv @ List.map_filter (parsed parse (label qv)) (filter isLesson (preorder t))"
    using TutorialParser_files [of parse t qv] by (simp add: Files_def lessons_def)
  have nav: "out (NavPrinter_Accept base t nv) =
      out nv @ concat (map (nav_text base) (nav_items (depth nv) (containers nv) (leaves nv) t))"
    by (simp add: NavPrinter_written)
  have leaf: "filter isLesson (leaf_nodes t) = lessons t"
    by (simp add: lessons_leaf_nodes)
  from printer parser nav leaf map_snd_preorder_indent [of "indent pv" t]
    entered_preorder [of "depth nv" "containers nv" "leaves nv" t]
    leaf_entered_preorder [of "depth nv" "containers nv" "leaves nv" t]
  show ?thesis by (simp add: lessons_def)
qed

text \<open>
  C9. At a lesson the printer writes the indentation, the name, \<^verbatim>\<open> --- \<close>, the sample of
  width 60 of the content, three dots and a newline. At a course it writes the indented
  name and a newline, visits the children in order with the indentation raised by 3, and
  ends with the indentation it started with. At a top course it visits the children in
  order and writes nothing of its own. No visit changes the indentation.
\<close>

theorem TutorialPrinter_output:
  "TutorialPrinter_Accept base sample (Lesson p c) v =
     v\<lparr>w := w v @ replicate (nat (indent v)) CHR '' '' @ base p @ '' --- '' @
               sample c 60 @ ''...'' @ [CHR 0x0A]\<rparr> \<and>
   w (TutorialPrinter_Accept base sample (Course p cs) v) =
     w (fold (TutorialPrinter_Accept base sample) cs
          (v\<lparr>w := w v @ replicate (nat (indent v)) CHR '' '' @ base p @ [CHR 0x0A],
             indent := indent v + 3\<rparr>)) \<and>
   indent (TutorialPrinter_Accept base sample (Course p cs) v) = indent v \<and>
   TutorialPrinter_Accept base sample (TopCourse p cs) v =
     fold (TutorialPrinter_Accept base sample) cs v \<and>
   indent (TutorialPrinter_Accept base sample t v) = indent v"
proof -
  have lesson: "TutorialPrinter_Accept base sample (Lesson p c) v =
     v\<lparr>w := w v @ replicate (nat (indent v)) CHR '' '' @ base p @ '' --- '' @
               sample c 60 @ ''...'' @ [CHR 0x0A]\<rparr>"
    by (simp add: spaces_replicate)
  have course: "w (TutorialPrinter_Accept base sample (Course p cs) v) =
     w (fold (TutorialPrinter_Accept base sample) cs
          (v\<lparr>w := w v @ replicate (nat (indent v)) CHR '' '' @ base p @ [CHR 0x0A],
             indent := indent v + 3\<rparr>))"
    by (simp add: spaces_replicate Let_def)
  have top: "TutorialPrinter_Accept base sample (TopCourse p cs) v =
     fold (TutorialPrinter_Accept base sample) cs v"
    by simp
  have restored: "indent (TutorialPrinter_Accept base sample u v) = indent v" for u
    by (rule TutorialPrinter_indent)
  from lesson course top restored [of "Course p cs"] restored [of t]
  show ?thesis by (intro conjI)
qed

text \<open>
  C10. Neither \<open>LoadOne\<close> nor \<open>LoadMany\<close> ever returns \<^verbatim>\<open>nil, nil\<close>: a return without an
  error carries a tree. The "no node" result of \<open>scanDir\<close> (it does occur, see
  \<open>demo_scanDir_empty\<close>) is turned into an error (\<open>demo_LoadOne_empty\<close>).
\<close>

theorem loaded_never_Absent:
  "LoadOne fs k root \<noteq> Some (Returns Absent) \<and> LoadMany fs k fileNames \<noteq> Some (Returns Absent)"
proof -
  have one: "LoadOne fs k r \<noteq> Some (Returns Absent)" for r
    by (auto simp: LoadOne_def split: outcome.splits bool.splits sum.splits option.splits ret.splits)
  have "LoadMany fs k fileNames \<noteq> Some (Returns Absent)"
    using one by (auto simp: LoadMany_def split: option.splits outcome.splits sum.splits)
  with one show ?thesis by blast
qed

end
